theory Spec2Isabelle
  imports Complex_Main "HOL-Library.Multiset" "HOL-Library.Char_ord"
begin

section \<open>allocations.py: the Allocation container and stringify_bundle\<close>

text \<open>
  Exceptions of the Python code are values. \<open>ValueError\<close> carries the message the
  constructor passes; \<open>IndexError\<close> is what list indexing raises out of range.
\<close>

datatype py_exn = ValueError string | IndexError

text \<open>
  The class \<open>Allocation\<close> has the four attributes \<open>num_of_agents\<close>, \<open>agents\<close>,
  \<open>bundles\<close> and \<open>values\<close>. A bundle may be \<open>None\<close> (the class doctest has one), so
  a bundle is an optional list. The attribute \<open>values\<close> is called \<open>values_of\<close> here,
  because \<open>values\<close> is a reserved word.
\<close>

record ('a, 'b, 'v) Allocation =
  num_of_agents :: nat
  agents :: "'a list"
  bundles :: "'b list option list"
  values_of :: "'v list"

text \<open>
  The message of the \<open>ValueError\<close> is a plain string literal in the source (it has
  no \<open>f\<close> prefix), so the braces are not interpolated.
\<close>

definition Allocation_init_msg :: string where
  "Allocation_init_msg =
     ''Numbers of agents, bundles and values must be identical, but they are not: '' @
     ''{len(agents)}, {len(bundles)}, {len(values)}''"

definition Allocation_init ::
  "'a list \<Rightarrow> 'b list option list \<Rightarrow> 'v list \<Rightarrow> py_exn + ('a, 'b, 'v) Allocation" where
  "Allocation_init ags bs vs =
     (let n = length ags in
      if n \<noteq> length bs \<or> n \<noteq> length vs
      then Inl (ValueError Allocation_init_msg)
      else Inr \<lparr>num_of_agents = n, agents = ags, bundles = bs, values_of = vs\<rparr>)"

text \<open>
  Python's \<open>xs[i]\<close> on a list: an index below zero counts from the end, and an
  index outside \<open>-len(xs) .. len(xs)-1\<close> raises \<open>IndexError\<close>.
\<close>

definition list_getitem :: "'x list \<Rightarrow> int \<Rightarrow> py_exn + 'x" where
  "list_getitem xs i =
     (let n = int (length xs) in
      if 0 \<le> i \<and> i < n then Inr (xs ! nat i)
      else if - n \<le> i \<and> i < 0 then Inr (xs ! nat (n + i))
      else Inl IndexError)"

definition get_bundle :: "('a, 'b, 'v) Allocation \<Rightarrow> int \<Rightarrow> py_exn + 'b list option" where
  "get_bundle self agent_index = list_getitem (bundles self) agent_index"

definition getitem :: "('a, 'b, 'v) Allocation \<Rightarrow> int \<Rightarrow> py_exn + 'b list option" where
  "getitem self agent_index = get_bundle self agent_index"



text \<open>\<open>str\<close> of a one-character string is the string itself.\<close>

definition str_char :: "char \<Rightarrow> string" where
  "str_char c = [c]"





section \<open>FairMaxProductAllocationProblem.py: the max-product fairness problem\<close>

text \<open>
  Numbers are Python floats (or whatever numeric type the caller passes). They are kept
  abstract: a type \<open>'f\<close> with the operations the code applies to it (\<open>1\<close>, \<open>-\<close>, \<open>*\<close>),
  about which nothing is assumed. A valuation matrix is the list of its rows, one row per
  agent; wrapping it with \<open>ValuationMatrix(...)\<close> keeps the rows as they are.
\<close>

type_synonym 'f ValuationMatrix = "'f list list"

definition ValuationMatrix :: "'f list list \<Rightarrow> 'f ValuationMatrix" where
  "ValuationMatrix rows = rows"

text \<open>
  The class hierarchy as a record and its extension: the base class holds the valuations
  and the thresholds, the subclass adds \<open>tolerance\<close>.
\<close>

record 'f FairThresholdAllocationProblem =
  valuation :: "'f ValuationMatrix"
  thresholds :: "'f list"

record 'f FairMaxProductAllocationProblem = "'f FairThresholdAllocationProblem" +
  tolerance :: 'f

text \<open>
  Modelled from the spec: the constructor of the base class
  \<open>FairThresholdAllocationProblem\<close>, whose file is not among the sources. The spec (4.4)
  says of construction that it "stores valuations and thresholds". The attributes the
  subclass has set before the call (\<open>rest\<close>) are kept.
\<close>

definition FairThresholdAllocationProblem_init ::
  "'f ValuationMatrix \<Rightarrow> 'f list \<Rightarrow> 'm \<Rightarrow> ('f, 'm) FairThresholdAllocationProblem_scheme" where
  "FairThresholdAllocationProblem_init valuations ths rest =
     \<lparr>valuation = valuations, thresholds = ths, \<dots> = rest\<rparr>"

text \<open>
  \<open>FairMaxProductAllocationProblem.__init__\<close>. The reference allocator
  \<open>max_product_allocation\<close> and the method \<open>utility_profile\<close> of its result are imported
  from modules outside the sources, so they are parameters. \<open>mpa_utilities * (1-tolerance)\<close>
  multiplies an array by a scalar, that is, every entry by it. The three \<open>logger.info\<close>
  calls only write to the log and are left out. The default \<open>tolerance=0.01\<close> of the
  signature is the caller's business here: the function takes the tolerance it is given.
\<close>

definition FairMaxProductAllocationProblem_init ::
  "('f ValuationMatrix \<Rightarrow> 'al) \<Rightarrow> ('al \<Rightarrow> 'f ValuationMatrix \<Rightarrow> 'f list) \<Rightarrow>
   'f list list \<Rightarrow> 'f::{one,minus,times} \<Rightarrow> 'f FairMaxProductAllocationProblem" where
  "FairMaxProductAllocationProblem_init max_product_allocation utility_profile vals tol =
     (let valuations = ValuationMatrix vals;
          mpa = max_product_allocation valuations;
          mpa_utilities = utility_profile mpa valuations;
          ths = map (\<lambda>u. u * (1 - tol)) mpa_utilities
      in FairThresholdAllocationProblem_init valuations ths
           (FairMaxProductAllocationProblem.fields tol))"

text \<open>
  \<open>fairness_adjective\<close>: \<open>"{}-max-product".format(1-self.tolerance)\<close>. How Python prints
  a number of type \<open>'f\<close> is the parameter \<open>format\<close>. The method is written in
  state-passing style: it returns its result together with the object, which it leaves
  as it was.
\<close>

definition fairness_adjective ::
  "('f \<Rightarrow> string) \<Rightarrow> 'f::{one,minus} FairMaxProductAllocationProblem \<Rightarrow>
   string \<times> 'f FairMaxProductAllocationProblem" where
  "fairness_adjective format self = (format (1 - tolerance self) @ ''-max-product'', self)"

subsection \<open>The feasibility oracle behind find_allocation_for_graph\<close>

text \<open>
  A consumption graph is a 0/1 matrix, agents by items; an allocation matrix has the
  same shape and holds the shares. An edge is a pair (agent, item).
\<close>

type_synonym ConsumptionGraph = "nat list list"
type_synonym 'f AllocationMatrix = "'f list list"
type_synonym edge = "nat \<times> nat"

text \<open>
  Modelled from the spec: the program handed to the external solver and the solver's
  answer (spec 4.2 and 6). The solver is not part of the repository; it "returns solution
  values per variable plus a status in {optimal, infeasible, unbounded, solver_error}".
  The program has "one share per permitted edge" as variables, and as constraints
  "per-item shares sum to 1, each share \<ge> 0, and per-agent weighted value \<ge> that
  agent's threshold".
\<close>

datatype solver_status = Optimal | Infeasible | Unbounded | SolverError

datatype 'f constraint =
    SharesSumToOne "edge list"
  | ShareNonNegative edge
  | UtilityAtLeast "(edge \<times> 'f) list" 'f

record 'f feasibility_program =
  variables :: "edge list"
  constraints :: "'f constraint list"

definition permitted_edges :: "ConsumptionGraph \<Rightarrow> edge list" where
  "permitted_edges g =
     concat (map (\<lambda>(i, row). map (\<lambda>(j, e). (i, j)) (filter (\<lambda>(j, e). e \<noteq> 0) (enumerate 0 row)))
                 (enumerate 0 g))"

definition num_of_items :: "'f ValuationMatrix \<Rightarrow> nat" where
  "num_of_items v = (case v of [] \<Rightarrow> 0 | row # _ \<Rightarrow> length row)"

definition threshold_program ::
  "('f, 'm) FairThresholdAllocationProblem_scheme \<Rightarrow> ConsumptionGraph \<Rightarrow> 'f feasibility_program" where
  "threshold_program self g =
     (let es = permitted_edges g in
      \<lparr>variables = es,
       constraints =
         map (\<lambda>j. SharesSumToOne (filter (\<lambda>e. snd e = j) es)) [0..<num_of_items (valuation self)] @
         map ShareNonNegative es @
         map (\<lambda>(i, vrow, t).
                UtilityAtLeast
                  (map (\<lambda>(j, c). ((i, j), c)) (filter (\<lambda>(j, c). (i, j) \<in> set es) (enumerate 0 vrow))) t)
             (enumerate 0 (zip (valuation self) (thresholds self)))\<rparr>)"

text \<open>
  Modelled from the spec: the allocation matrix read off a solution. Only permitted
  edges are variables of the program, so every other entry of the matrix is 0.
\<close>

definition allocation_of :: "ConsumptionGraph \<Rightarrow> (edge \<Rightarrow> 'f) \<Rightarrow> 'f::zero AllocationMatrix" where
  "allocation_of g x =
     map (\<lambda>(i, row). map (\<lambda>(j, e). if e = 0 then 0 else x (i, j)) (enumerate 0 row))
         (enumerate 0 g)"

text \<open>
  Modelled from the spec: \<open>find_allocation_for_graph\<close>, a method of the base class
  \<open>FairThresholdAllocationProblem\<close>, whose file is not among the sources. The spec (4.2,
  4.4, 7): a "single oracle call" that "returns \<open>None\<close> on infeasibility"; the oracle
  "treats solver-reported optimal/feasible as success and infeasible/unbounded as the
  Infeasible outcome", and a solver error is "treated as Infeasible for that node".
\<close>

definition find_allocation_for_graph ::
  "('f feasibility_program \<Rightarrow> solver_status \<times> (edge \<Rightarrow> 'f)) \<Rightarrow>
   ('f, 'm) FairThresholdAllocationProblem_scheme \<Rightarrow> ConsumptionGraph \<Rightarrow>
   'f::zero AllocationMatrix option" where
  "find_allocation_for_graph solver self g =
     (case solver (threshold_program self g) of
        (Optimal, x) \<Rightarrow> Some (allocation_of g x)
      | (Infeasible, x) \<Rightarrow> None
      | (Unbounded, x) \<Rightarrow> None
      | (SolverError, x) \<Rightarrow> None)"

section \<open>Properties\<close>

subsection \<open>Facts about the container\<close>

lemma list_getitem_nonneg:
  "0 \<le> i \<Longrightarrow> i < int (length xs) \<Longrightarrow> list_getitem xs i = Inr (xs ! nat i)"
  by (simp add: list_getitem_def)

lemma list_getitem_neg:
  "- int (length xs) \<le> i \<Longrightarrow> i < 0 \<Longrightarrow> list_getitem xs i = Inr (xs ! nat (int (length xs) + i))"
  by (simp add: list_getitem_def Let_def)



text \<open>
  C9. \<open>Allocation.__init__\<close>: when the three lists do not have the same length the
  constructor raises \<open>ValueError\<close> and builds no object; when they do, the object holds
  the three lists unchanged, \<open>num_of_agents\<close> is the length of \<open>agents\<close>, and for every
  index in range (counted from the front, or from the end when negative) both
  \<open>get_bundle\<close> and the indexing operator return the bundle at that position.
\<close>

theorem Allocation_init_spec:
  fixes ags :: "'a list" and bs :: "'b list option list" and vs :: "'v list"
  shows
  "(length ags \<noteq> length bs \<or> length ags \<noteq> length vs \<longrightarrow>
      (\<exists>msg. Allocation_init ags bs vs = Inl (ValueError msg))) \<and>
   (length ags = length bs \<and> length ags = length vs \<longrightarrow>
      (\<exists>a. Allocation_init ags bs vs = Inr a \<and>
           agents a = ags \<and> bundles a = bs \<and> values_of a = vs \<and>
           num_of_agents a = length ags \<and>
           (\<forall>i. 0 \<le> i \<and> i < int (length bs) \<longrightarrow>
                get_bundle a i = Inr (bs ! nat i) \<and> getitem a i = Inr (bs ! nat i)) \<and>
           (\<forall>i. - int (length bs) \<le> i \<and> i < 0 \<longrightarrow>
                get_bundle a i = Inr (bs ! nat (int (length bs) + i)) \<and>
                getitem a i = Inr (bs ! nat (int (length bs) + i)))))"
proof (intro conjI impI)
  assume "length ags \<noteq> length bs \<or> length ags \<noteq> length vs"
  then show "\<exists>msg. Allocation_init ags bs vs = Inl (ValueError msg)"
    by (auto simp: Allocation_init_def Let_def)
next
  assume eq: "length ags = length bs \<and> length ags = length vs"
  let ?a = "\<lparr>num_of_agents = length ags, agents = ags, bundles = bs, values_of = vs\<rparr>"
  have init: "Allocation_init ags bs vs = Inr ?a"
    using eq by (simp add: Allocation_init_def Let_def)
  have front: "\<forall>i. 0 \<le> i \<and> i < int (length bs) \<longrightarrow>
      get_bundle ?a i = Inr (bs ! nat i) \<and> getitem ?a i = Inr (bs ! nat i)"
    by (simp add: getitem_def get_bundle_def list_getitem_nonneg)
  have rear: "\<forall>i. - int (length bs) \<le> i \<and> i < 0 \<longrightarrow>
      get_bundle ?a i = Inr (bs ! nat (int (length bs) + i)) \<and>
      getitem ?a i = Inr (bs ! nat (int (length bs) + i))"
    by (simp add: getitem_def get_bundle_def list_getitem_neg)
  show "\<exists>a. Allocation_init ags bs vs = Inr a \<and>
           agents a = ags \<and> bundles a = bs \<and> values_of a = vs \<and>
           num_of_agents a = length ags \<and>
           (\<forall>i. 0 \<le> i \<and> i < int (length bs) \<longrightarrow>
                get_bundle a i = Inr (bs ! nat i) \<and> getitem a i = Inr (bs ! nat i)) \<and>
           (\<forall>i. - int (length bs) \<le> i \<and> i < 0 \<longrightarrow>
                get_bundle a i = Inr (bs ! nat (int (length bs) + i)) \<and>
                getitem a i = Inr (bs ! nat (int (length bs) + i)))"
    using init front rear by (intro exI [of _ ?a]) simp
qed




text \<open>
  The class doctest (three agents, the second bundle \<open>None\<close>) and a call with lists of
  different lengths, as instances of C9.
\<close>

theorem Allocation_init_spec_witness:
  "length [0, 1, 2 :: nat] = length [Some [3, 6 :: nat], None, Some [2, 5]] \<and>
   length [0, 1, 2 :: nat] = length [9, 0, 7 :: int] \<and>
   (0::int) \<le> 2 \<and> (2::int) < int (length [Some [3, 6 :: nat], None, Some [2, 5]]) \<and>
   - int (length [Some [3, 6 :: nat], None, Some [2, 5]]) \<le> - 3 \<and> (- 3 :: int) < 0 \<and>
   (\<exists>a. Allocation_init [0, 1, 2 :: nat] [Some [3, 6 :: nat], None, Some [2, 5]] [9, 0, 7 :: int] = Inr a \<and>
        num_of_agents a = 3 \<and>
        get_bundle a 2 = Inr (Some [2, 5]) \<and> getitem a (- 3) = Inr (Some [3, 6])) \<and>
   length [0, 1 :: nat] \<noteq> length [Some [3 :: nat]] \<and>
   (\<exists>msg. Allocation_init [0, 1 :: nat] [Some [3 :: nat]] [9, 0 :: int] = Inl (ValueError msg))"
proof -
  let ?bs = "[Some [3, 6 :: nat], None, Some [2, 5]]"
  obtain a where a: "Allocation_init [0, 1, 2 :: nat] ?bs [9, 0, 7 :: int] = Inr a"
      "num_of_agents a = length [0, 1, 2 :: nat]"
      "\<forall>i. 0 \<le> i \<and> i < int (length ?bs) \<longrightarrow>
          get_bundle a i = Inr (?bs ! nat i) \<and> getitem a i = Inr (?bs ! nat i)"
      "\<forall>i. - int (length ?bs) \<le> i \<and> i < 0 \<longrightarrow>
          get_bundle a i = Inr (?bs ! nat (int (length ?bs) + i)) \<and>
          getitem a i = Inr (?bs ! nat (int (length ?bs) + i))"
    using Allocation_init_spec [of "[0, 1, 2 :: nat]" ?bs "[9, 0, 7 :: int]"] by auto
  have g2: "get_bundle a 2 = Inr (Some [2, 5])" using a(3) [rule_format, of 2] by simp
  have g3: "getitem a (- 3) = Inr (Some [3, 6])" using a(4) [rule_format, of "- 3"] by simp
  have bad: "\<exists>msg. Allocation_init [0, 1 :: nat] [Some [3 :: nat]] [9, 0 :: int] = Inl (ValueError msg)"
    using Allocation_init_spec [of "[0, 1 :: nat]" "[Some [3 :: nat]]" "[9, 0 :: int]"] by simp
  show ?thesis using a(1,2) g2 g3 bad by simp
qed

subsection \<open>The max-product problem\<close>

lemma init_fields:
  "FairMaxProductAllocationProblem_init mpa up v t =
     \<lparr>valuation = ValuationMatrix v,
      thresholds = map (\<lambda>u. u * (1 - t)) (up (mpa (ValuationMatrix v)) (ValuationMatrix v)),
      tolerance = t\<rparr>"
  by (simp add: FairMaxProductAllocationProblem_init_def FairThresholdAllocationProblem_init_def
      Let_def FairMaxProductAllocationProblem.defs)

text \<open>
  C6. \<open>FairMaxProductAllocationProblem.__init__(v, t)\<close> asks the reference allocator for a
  max-product allocation of \<open>v\<close>, takes that allocation's utility profile, and stores on
  the object the valuations, the tolerance and the thresholds: one threshold per entry of
  the utility profile, the entry multiplied by \<open>1 - t\<close>. The thresholds are fixed at
  construction: \<open>fairness_adjective\<close>, the other method of the class, hands the object back
  with the same thresholds.
\<close>

theorem FairMaxProductAllocationProblem_init_spec:
  fixes v :: "'f::{one,minus,times} list list"
  shows
  "valuation (FairMaxProductAllocationProblem_init mpa up v t) = ValuationMatrix v \<and>
   tolerance (FairMaxProductAllocationProblem_init mpa up v t) = t \<and>
   length (thresholds (FairMaxProductAllocationProblem_init mpa up v t)) =
     length (up (mpa (ValuationMatrix v)) (ValuationMatrix v)) \<and>
   (\<forall>i < length (up (mpa (ValuationMatrix v)) (ValuationMatrix v)).
      thresholds (FairMaxProductAllocationProblem_init mpa up v t) ! i =
        up (mpa (ValuationMatrix v)) (ValuationMatrix v) ! i * (1 - t)) \<and>
   thresholds (snd (fairness_adjective fmt (FairMaxProductAllocationProblem_init mpa up v t))) =
     thresholds (FairMaxProductAllocationProblem_init mpa up v t)"
  by (simp add: init_fields fairness_adjective_def)

text \<open>
  C7. For a problem constructed with tolerance \<open>t\<close>, \<open>fairness_adjective()\<close> is the printed
  form of \<open>1 - t\<close> followed by \<open>-max-product\<close>: when \<open>1 - t\<close> prints as \<open>0.99\<close> the result is
  \<open>0.99-max-product\<close>. The method leaves the object as it was, and two objects with the same
  tolerance give the same string whatever their valuations and thresholds.
\<close>

theorem fairness_adjective_spec:
  fixes t :: "'f::{one,minus,times}"
  shows
  "fst (fairness_adjective fmt (FairMaxProductAllocationProblem_init mpa up v t)) =
     fmt (1 - t) @ ''-max-product'' \<and>
   snd (fairness_adjective fmt p) = p \<and>
   (tolerance p = tolerance q \<longrightarrow>
      fst (fairness_adjective fmt p) = fst (fairness_adjective fmt q)) \<and>
   (fmt (1 - t) = ''0.99'' \<longrightarrow>
      fst (fairness_adjective fmt (FairMaxProductAllocationProblem_init mpa up v t)) =
        ''0.99-max-product'')"
  by (simp add: init_fields fairness_adjective_def)

subsection \<open>The allocation read off a solution\<close>

lemma allocation_of_length: "length (allocation_of g x) = length g"
  by (simp add: allocation_of_def)

lemma allocation_of_row:
  "i < length g \<Longrightarrow>
   allocation_of g x ! i = map (\<lambda>(j, e). if e = 0 then 0 else x (i, j)) (enumerate 0 (g ! i))"
  by (simp add: allocation_of_def nth_enumerate_eq)

lemma allocation_of_entry:
  "i < length g \<Longrightarrow> j < length (g ! i) \<Longrightarrow>
   allocation_of g x ! i ! j = (if g ! i ! j = 0 then 0 else x (i, j))"
  by (simp add: allocation_of_row nth_enumerate_eq)

lemma allocation_of_row_length:
  "i < length g \<Longrightarrow> length (allocation_of g x ! i) = length (g ! i)"
  by (simp add: allocation_of_row)

lemma find_allocation_Some:
  "find_allocation_for_graph solver p g = Some A \<Longrightarrow>
   \<exists>x. solver (threshold_program p g) = (Optimal, x) \<and> A = allocation_of g x"
  by (auto simp: find_allocation_for_graph_def split: prod.splits solver_status.splits)

text \<open>
  C4. Whenever \<open>find_allocation_for_graph\<close> returns a matrix for a consumption graph \<open>g\<close>,
  the matrix has the shape of \<open>g\<close> and its entry is exactly 0 at every position where \<open>g\<close>
  has a 0, whatever the solver answered.
\<close>

theorem find_allocation_for_graph_zero_off_graph:
  fixes A :: "'f::zero AllocationMatrix"
  assumes "find_allocation_for_graph solver p g = Some A"
    and "i < length g" and "j < length (g ! i)" and "g ! i ! j = 0"
  shows "length A = length g \<and> length (A ! i) = length (g ! i) \<and> A ! i ! j = 0"
proof -
  from assms(1) obtain x where A: "A = allocation_of g x"
    using find_allocation_Some by blast
  show ?thesis
    using assms(2-4) by (simp add: A allocation_of_length allocation_of_row_length allocation_of_entry)
qed


text \<open>
  An instance of C4: the graph of the last doctest on the first valuation matrix, with a
  solver that reports success and gives every variable the value 1/2.
\<close>

theorem find_allocation_for_graph_zero_off_graph_witness:
  "find_allocation_for_graph (\<lambda>lp. (Optimal, \<lambda>e. (1::real) / 2))
     \<lparr>valuation = [[1, 2, 3, 4], [4, 5, 6, 5], [7, 8, 9, 6]], thresholds = [1, 1, 1]\<rparr>
     [[0, 0, 0, 1], [0, 1, 1, 1], [1, 1, 0, 0]] =
     Some [[0, 0, 0, 1 / 2], [0, 1 / 2, 1 / 2, 1 / 2], [1 / 2, 1 / 2, 0, 0]] \<and>
   (2::nat) < length [[0, 0, 0, 1], [0, 1, 1, 1], [1, 1, 0, 0 :: nat]] \<and>
   (3::nat) < length ([[0, 0, 0, 1], [0, 1, 1, 1], [1, 1, 0, 0 :: nat]] ! 2) \<and>
   [[0, 0, 0, 1], [0, 1, 1, 1], [1, 1, 0, 0 :: nat]] ! 2 ! 3 = 0 \<and>
   [[0, 0, 0, 1 / 2], [0, 1 / 2, 1 / 2, 1 / 2], [1 / 2, 1 / 2, 0, 0 :: real]] ! 2 ! 3 = 0"
proof -
  let ?g = "[[0, 0, 0, 1], [0, 1, 1, 1], [1, 1, 0, 0 :: nat]]"
  let ?A = "[[0, 0, 0, 1 / 2], [0, 1 / 2, 1 / 2, 1 / 2], [1 / 2, 1 / 2, 0, 0 :: real]]"
  let ?p = "\<lparr>valuation = [[1, 2, 3, 4], [4, 5, 6, 5], [7, 8, 9, 6 :: real]], thresholds = [1, 1, 1]\<rparr>"
  have run: "find_allocation_for_graph (\<lambda>lp. (Optimal, \<lambda>e. (1::real) / 2)) ?p ?g = Some ?A"
    by (simp add: find_allocation_for_graph_def allocation_of_def)
  have i: "(2::nat) < length ?g" by simp
  have j: "(3::nat) < length (?g ! 2)" by simp
  have e: "?g ! 2 ! 3 = 0" by simp
  from find_allocation_for_graph_zero_off_graph [OF run i j e] run i j e show ?thesis
    by blast
qed

text \<open>
  An instance of C6: the valuations of the class doctest, tolerance 1/100, and a reference
  allocator whose utility profile is (4, 123/16, 123/10); the third threshold is 12.177.
\<close>

theorem FairMaxProductAllocationProblem_init_spec_witness:
  "(2::nat) < length [4, 123 / 16, 123 / 10 :: real] \<and>
   thresholds (FairMaxProductAllocationProblem_init
       (\<lambda>v. [[0, 0, 0, 1], [0, 27 / 80, 1, 0], [1, 53 / 80, 0, 0 :: real]])
       (\<lambda>a v. [4, 123 / 16, 123 / 10 :: real])
       [[1, 2, 3, 4], [4, 5, 6, 5], [7, 8, 9, 6 :: real]] (1 / 100)) ! 2 = 12177 / 1000"
proof -
  let ?mpa = "\<lambda>v :: real list list. [[0, 0, 0, 1], [0, 27 / 80, 1, 0], [1, 53 / 80, 0, 0 :: real]]"
  let ?up = "\<lambda>(a :: real list list) (v :: real list list). [4, 123 / 16, 123 / 10 :: real]"
  let ?v = "[[1, 2, 3, 4], [4, 5, 6, 5], [7, 8, 9, 6 :: real]]"
  have every: "\<forall>i < length (?up (?mpa (ValuationMatrix ?v)) (ValuationMatrix ?v)).
      thresholds (FairMaxProductAllocationProblem_init ?mpa ?up ?v (1 / 100)) ! i =
        ?up (?mpa (ValuationMatrix ?v)) (ValuationMatrix ?v) ! i * (1 - 1 / 100)"
    using FairMaxProductAllocationProblem_init_spec [of ?mpa ?up ?v "1 / 100"] by blast
  have third: "thresholds (FairMaxProductAllocationProblem_init ?mpa ?up ?v (1 / 100)) ! 2 =
      [4, 123 / 16, 123 / 10 :: real] ! 2 * (1 - 1 / 100)"
    using every [rule_format, of 2] by simp
  have "[4, 123 / 16, 123 / 10 :: real] ! 2 * (1 - 1 / 100) = 12177 / 1000" by simp
  with third show ?thesis by simp
qed

text \<open>
  An instance of C7: tolerance 1/100 over the reals, with a printing function that writes
  99/100 as \<open>0.99\<close>.
\<close>

theorem fairness_adjective_spec_witness:
  "tolerance \<lparr>valuation = [[1 :: real]], thresholds = [1], tolerance = 1 / 100\<rparr> =
     tolerance \<lparr>valuation = [[2 :: real]], thresholds = [2], tolerance = 1 / 100\<rparr> \<and>
   (\<lambda>x :: real. if x = 99 / 100 then ''0.99'' else ''other'') (1 - 1 / 100) = ''0.99'' \<and>
   fst (fairness_adjective (\<lambda>x :: real. if x = 99 / 100 then ''0.99'' else ''other'')
         \<lparr>valuation = [[1 :: real]], thresholds = [1], tolerance = 1 / 100\<rparr>) =
     fst (fairness_adjective (\<lambda>x :: real. if x = 99 / 100 then ''0.99'' else ''other'')
         \<lparr>valuation = [[2 :: real]], thresholds = [2], tolerance = 1 / 100\<rparr>) \<and>
   fst (fairness_adjective (\<lambda>x :: real. if x = 99 / 100 then ''0.99'' else ''other'')
         (FairMaxProductAllocationProblem_init (\<lambda>v :: real list list. v)
            (\<lambda>(a :: real list list) v. [4, 123 / 16, 123 / 10])
            [[1, 2, 3, 4], [4, 5, 6, 5], [7, 8, 9, 6]] (1 / 100))) = ''0.99-max-product''"
proof -
  let ?fmt = "\<lambda>x :: real. if x = 99 / 100 then ''0.99'' else ''other''"
  let ?p = "\<lparr>valuation = [[1 :: real]], thresholds = [1], tolerance = 1 / 100\<rparr>"
  let ?q = "\<lparr>valuation = [[2 :: real]], thresholds = [2], tolerance = 1 / 100\<rparr>"
  let ?mpa = "\<lambda>v :: real list list. v"
  let ?up = "\<lambda>(a :: real list list) (v :: real list list). [4, 123 / 16, 123 / 10 :: real]"
  let ?v = "[[1, 2, 3, 4], [4, 5, 6, 5], [7, 8, 9, 6 :: real]]"
  have t: "tolerance ?p = tolerance ?q" by simp
  have f: "?fmt (1 - 1 / 100) = ''0.99''" by simp
  from fairness_adjective_spec [of ?fmt ?mpa ?up ?v "1 / 100" ?p ?q] t f show ?thesis
    by blast
qed

end
